theory Spec2Isabelle
  imports Complex_Main
begin

section \<open>Go's float64\<close>

text \<open>
  Every number of \<^verbatim>\<open>pid.go\<close> is a \<^verbatim>\<open>float64\<close>, an IEEE 754 binary64 value.
  The model keeps the values that decide the program's comparisons apart: the
  not-a-number value, the two infinities, negative zero, and the finite values
  with their exact rational value (\<open>Fin 0\<close> is positive zero).  A finite
  \<open>Fin q\<close> is a float64 when rounding leaves it alone (\<open>is_float64\<close> below);
  every arithmetic operation rounds its exact result to the nearest float64,
  ties to the even significand, as the hardware does.  The operations are the
  unfused ones: a product is rounded before it is added.
\<close>

datatype float64 = NaN | PInf | NInf | NZero | Fin rat

text \<open>The number of binary digits of a natural number.\<close>

fun blen :: "nat \<Rightarrow> nat" where
  "blen n = (if n = 0 then 0 else Suc (blen (n div 2)))"

declare blen.simps [simp del]

definition pow2 :: "int \<Rightarrow> rat" where
  "pow2 k = (if 0 \<le> k then 2 ^ nat k else 1 / 2 ^ nat (- k))"

text \<open>For \<open>0 < a\<close>, the exponent \<open>e\<close> with \<open>2 ^ e \<le> a < 2 ^ (e + 1)\<close>.\<close>

definition flog2 :: "rat \<Rightarrow> int" where
  "flog2 a = (if 1 \<le> a then int (blen (nat \<lfloor>a\<rfloor>)) - 1
              else - int (blen (nat (\<lceil>1 / a\<rceil> - 1))))"

definition round_even :: "rat \<Rightarrow> int" where
  "round_even x = (let f = \<lfloor>x\<rfloor>; d = x - of_int f in
     if d < 1 / 2 then f else if 1 / 2 < d then f + 1
     else if even f then f else f + 1)"

text \<open>
  Rounding an exact result to binary64: 53 significant bits, the exponent of a
  subnormal number held at \<open>-1022\<close>, overflow to an infinity from \<open>2 ^ 1024\<close> on,
  underflow to a zero of the same sign.
\<close>

definition rnd :: "rat \<Rightarrow> float64" where
  "rnd q = (let a = \<bar>q\<bar>;
                e = max (flog2 a) (- 1022);
                u = pow2 (e - 52);
                r = round_even (a / u);
                v = of_int r * u in
     if pow2 1024 \<le> v then (if q < 0 then NInf else PInf)
     else if r = 0 then (if q < 0 then NZero else Fin 0)
     else Fin (if q < 0 then - v else v))"


fun is_finite :: "float64 \<Rightarrow> bool" where
  "is_finite NZero = True"
| "is_finite (Fin q) = True"
| "is_finite NaN = False"
| "is_finite PInf = False"
| "is_finite NInf = False"

fun val :: "float64 \<Rightarrow> rat" where
  "val (Fin q) = q"
| "val NZero = 0"
| "val NaN = 0"
| "val PInf = 0"
| "val NInf = 0"

fun sign_bit :: "float64 \<Rightarrow> bool" where
  "sign_bit (Fin q) = (q < 0)"
| "sign_bit NZero = True"
| "sign_bit NInf = True"
| "sign_bit PInf = False"
| "sign_bit NaN = False"

definition signed_zero :: "bool \<Rightarrow> float64" where
  "signed_zero s = (if s then NZero else Fin 0)"

definition signed_inf :: "bool \<Rightarrow> float64" where
  "signed_inf s = (if s then NInf else PInf)"

text \<open>The order of the non-NaN values: the infinities below and above the finite ones.\<close>

fun rank :: "float64 \<Rightarrow> int" where
  "rank NInf = - 1"
| "rank PInf = 1"
| "rank NaN = 0"
| "rank NZero = 0"
| "rank (Fin q) = 0"

text \<open>Go's \<^verbatim>\<open><\<close>, \<^verbatim>\<open>></\<close>, \<^verbatim>\<open><=\<close> and \<^verbatim>\<open>==\<close>: false whenever an operand is NaN.\<close>

definition flt :: "float64 \<Rightarrow> float64 \<Rightarrow> bool" where
  "flt x y = (x \<noteq> NaN \<and> y \<noteq> NaN \<and>
     (rank x < rank y \<or> (rank x = rank y \<and> val x < val y)))"

definition fgt :: "float64 \<Rightarrow> float64 \<Rightarrow> bool" where
  "fgt x y = flt y x"

definition fle :: "float64 \<Rightarrow> float64 \<Rightarrow> bool" where
  "fle x y = (x \<noteq> NaN \<and> y \<noteq> NaN \<and>
     (rank x < rank y \<or> (rank x = rank y \<and> val x \<le> val y)))"


text \<open>Unary minus and \<^verbatim>\<open>math.Abs\<close> act on the sign alone.\<close>

fun fneg :: "float64 \<Rightarrow> float64" where
  "fneg NaN = NaN"
| "fneg PInf = NInf"
| "fneg NInf = PInf"
| "fneg NZero = Fin 0"
| "fneg (Fin q) = (if q = 0 then NZero else Fin (- q))"

fun fabs :: "float64 \<Rightarrow> float64" where
  "fabs NaN = NaN"
| "fabs PInf = PInf"
| "fabs NInf = PInf"
| "fabs NZero = Fin 0"
| "fabs (Fin q) = Fin \<bar>q\<bar>"

definition fadd :: "float64 \<Rightarrow> float64 \<Rightarrow> float64" where
  "fadd x y =
     (if x = NaN \<or> y = NaN then NaN
      else if x = PInf then (if y = NInf then NaN else PInf)
      else if x = NInf then (if y = PInf then NaN else NInf)
      else if y = PInf then PInf
      else if y = NInf then NInf
      else if x = NZero \<and> y = NZero then NZero
      else rnd (val x + val y))"

definition fsub :: "float64 \<Rightarrow> float64 \<Rightarrow> float64" where
  "fsub x y = fadd x (fneg y)"

definition fmul :: "float64 \<Rightarrow> float64 \<Rightarrow> float64" where
  "fmul x y =
     (if x = NaN \<or> y = NaN then NaN
      else if is_finite x \<and> is_finite y then
        (if val x * val y = 0 then signed_zero (sign_bit x \<noteq> sign_bit y)
         else rnd (val x * val y))
      else if (is_finite x \<and> val x = 0) \<or> (is_finite y \<and> val y = 0) then NaN
      else signed_inf (sign_bit x \<noteq> sign_bit y))"

definition fdiv :: "float64 \<Rightarrow> float64 \<Rightarrow> float64" where
  "fdiv x y =
     (if x = NaN \<or> y = NaN then NaN
      else if is_finite x then
        (if is_finite y then
           (if val y = 0 then
              (if val x = 0 then NaN else signed_inf (sign_bit x \<noteq> sign_bit y))
            else if val x = 0 then signed_zero (sign_bit x \<noteq> sign_bit y)
            else rnd (val x / val y))
         else signed_zero (sign_bit x \<noteq> sign_bit y))
      else if is_finite y then signed_inf (sign_bit x \<noteq> sign_bit y)
      else NaN)"

text \<open>A decimal constant of the source, converted to float64.\<close>

definition lit :: "rat \<Rightarrow> float64" where
  "lit q = rnd q"

section \<open>The controller\<close>

text \<open>
  The struct \<^verbatim>\<open>PID\<close>.  The mutex is left out: every method holds it from its
  first access of the state to its return, so the methods are modelled as
  atomic steps on the state.  The type \<open>'t\<close> stands for \<^verbatim>\<open>time.Time\<close>.
\<close>

record 't PID =
  kp :: float64
  ki :: float64
  kd :: float64
  outputMin :: float64
  outputMax :: float64
  integralMin :: float64
  integralMax :: float64
  setPoint :: float64
  prevValue :: float64
  integral :: float64
  prevError :: float64
  lastUpdate :: 't
  deadBand :: float64

text \<open>\<^verbatim>\<open>NewPID\<close>; \<open>now\<close> is what \<^verbatim>\<open>time.Now()\<close> returns. Fields not named are zero.\<close>

definition NewPID :: "float64 \<Rightarrow> float64 \<Rightarrow> float64 \<Rightarrow> float64 \<Rightarrow> 't \<Rightarrow> 't PID" where
  "NewPID p i d db now =
     \<lparr> kp = p, ki = i, kd = d,
       outputMin = NInf, outputMax = PInf,
       integralMin = Fin (- 100), integralMax = Fin 100,
       setPoint = Fin 0, prevValue = Fin 0, integral = Fin 0, prevError = Fin 0,
       lastUpdate = now, deadBand = db \<rparr>"

text \<open>
  The two setters that can fail return the error (\<open>None\<close> is Go's \<^verbatim>\<open>nil\<close>)
  and the controller as it is after the call.
\<close>

definition SetOutputLimits :: "'t PID \<Rightarrow> float64 \<Rightarrow> float64 \<Rightarrow> string option \<times> 't PID" where
  "SetOutputLimits pid mn mx =
     (if fgt mn mx then (Some ''min output greater than max output'', pid)
      else (None, pid\<lparr>outputMin := mn, outputMax := mx\<rparr>))"

definition clamp_integral :: "'t PID \<Rightarrow> 't PID" where
  "clamp_integral pid =
     (if fgt (integral pid) (integralMax pid) then pid\<lparr>integral := integralMax pid\<rparr>
      else if flt (integral pid) (integralMin pid) then pid\<lparr>integral := integralMin pid\<rparr>
      else pid)"

definition SetIntegralLimits :: "'t PID \<Rightarrow> float64 \<Rightarrow> float64 \<Rightarrow> string option \<times> 't PID" where
  "SetIntegralLimits pid mn mx =
     (if fgt mn mx then (Some ''min integral greater than max integral'', pid)
      else (None, clamp_integral (pid\<lparr>integralMin := mn, integralMax := mx\<rparr>)))"

definition SetSetPoint :: "'t PID \<Rightarrow> float64 \<Rightarrow> 't PID" where
  "SetSetPoint pid v = pid\<lparr>setPoint := v\<rparr>"

definition GetSetPoint :: "'t PID \<Rightarrow> float64" where
  "GetSetPoint pid = setPoint pid"

definition SetPID :: "'t PID \<Rightarrow> float64 \<Rightarrow> float64 \<Rightarrow> float64 \<Rightarrow> 't PID" where
  "SetPID pid p i d = pid\<lparr>kp := p, ki := i, kd := d\<rparr>"

definition GetPID :: "'t PID \<Rightarrow> float64 \<times> float64 \<times> float64" where
  "GetPID pid = (kp pid, ki pid, kd pid)"

subsection \<open>The update step\<close>

text \<open>
  \<^verbatim>\<open>updateInternal\<close>, statement by statement.  Its three local values are
  definitions of their own, so that a property of the error, of the derivative
  or of the unclamped output can name it.
\<close>

definition error_term :: "'t PID \<Rightarrow> float64 \<Rightarrow> float64" where
  "error_term pid v =
     (let err = fsub (setPoint pid) v in
      if flt (fabs err) (deadBand pid) then Fin 0 else err)"

definition accumulate :: "'t PID \<Rightarrow> float64 \<Rightarrow> float64 \<Rightarrow> 't PID" where
  "accumulate pid err dt =
     clamp_integral (pid\<lparr>integral := fadd (integral pid) (fmul err dt)\<rparr>)"

definition derivative_term :: "'t PID \<Rightarrow> float64 \<Rightarrow> float64 \<Rightarrow> float64" where
  "derivative_term pid v dt =
     (if fgt dt (Fin 0) then fdiv (fneg (fsub v (prevValue pid))) dt else Fin 0)"

definition raw_output :: "'t PID \<Rightarrow> float64 \<Rightarrow> float64 \<Rightarrow> float64" where
  "raw_output pid err derivative =
     fadd (fadd (fmul (kp pid) err) (fmul (ki pid) (integral pid))) (fmul (kd pid) derivative)"

definition clamp_output :: "'t PID \<Rightarrow> float64 \<Rightarrow> float64" where
  "clamp_output pid out =
     (if fgt out (outputMax pid) then outputMax pid
      else if flt out (outputMin pid) then outputMin pid
      else out)"

definition updateInternal :: "'t PID \<Rightarrow> float64 \<Rightarrow> float64 \<Rightarrow> float64 \<times> 't PID" where
  "updateInternal pid v dt =
     (let err = error_term pid v;
          pid1 = accumulate pid err dt;
          derivative = derivative_term pid1 v dt;
          pid2 = pid1\<lparr>prevValue := v\<rparr>;
          out = clamp_output pid2 (raw_output pid2 err derivative);
          pid3 = pid2\<lparr>prevError := err\<rparr>
      in (out, pid3))"

text \<open>
  \<^verbatim>\<open>Update\<close> reads the clock.  \<open>now\<close> is the value of \<^verbatim>\<open>time.Now()\<close> and
  \<open>seconds now last\<close> the value of \<^verbatim>\<open>now.Sub(last).Seconds()\<close>; both belong
  to Go's library and are taken as parameters.
\<close>

definition Update :: "('t \<Rightarrow> 't \<Rightarrow> float64) \<Rightarrow> 't PID \<Rightarrow> 't \<Rightarrow> float64 \<Rightarrow> float64 \<times> 't PID" where
  "Update seconds pid now v =
     (let dt = seconds now (lastUpdate pid);
          pid1 = pid\<lparr>lastUpdate := now\<rparr>
      in updateInternal pid1 v dt)"

definition UpdateDuration :: "'t PID \<Rightarrow> float64 \<Rightarrow> float64 \<Rightarrow> float64 \<times> 't PID" where
  "UpdateDuration pid v dt = updateInternal pid v dt"

subsection \<open>Sequences of calls\<close>

text \<open>
  A call of a method that changes the controller, with its arguments.  A run
  applies a list of calls in order, from a given controller; the controllers a
  program can reach are the runs from \<open>NewPID\<close>.
\<close>

datatype 't call =
    CallSetOutputLimits float64 float64
  | CallSetIntegralLimits float64 float64
  | CallSetSetPoint float64
  | CallSetPID float64 float64 float64
  | CallUpdate 't float64
  | CallUpdateDuration float64 float64

fun step :: "('t \<Rightarrow> 't \<Rightarrow> float64) \<Rightarrow> 't PID \<Rightarrow> 't call \<Rightarrow> 't PID" where
  "step sec pid (CallSetOutputLimits mn mx) = snd (SetOutputLimits pid mn mx)"
| "step sec pid (CallSetIntegralLimits mn mx) = snd (SetIntegralLimits pid mn mx)"
| "step sec pid (CallSetSetPoint v) = SetSetPoint pid v"
| "step sec pid (CallSetPID p i d) = SetPID pid p i d"
| "step sec pid (CallUpdate now v) = snd (Update sec pid now v)"
| "step sec pid (CallUpdateDuration v dt) = snd (UpdateDuration pid v dt)"

fun run :: "('t \<Rightarrow> 't \<Rightarrow> float64) \<Rightarrow> 't PID \<Rightarrow> 't call list \<Rightarrow> 't PID" where
  "run sec pid [] = pid"
| "run sec pid (c # cs) = run sec (step sec pid c) cs"

text \<open>The calls that set limits, restricted to arguments that are numbers.\<close>

fun no_nan_output_limits :: "'t call \<Rightarrow> bool" where
  "no_nan_output_limits (CallSetOutputLimits mn mx) = (mn \<noteq> NaN \<and> mx \<noteq> NaN)"
| "no_nan_output_limits c = True"

fun no_nan_integral_limits :: "'t call \<Rightarrow> bool" where
  "no_nan_integral_limits (CallSetIntegralLimits mn mx) = (mn \<noteq> NaN \<and> mx \<noteq> NaN)"
| "no_nan_integral_limits c = True"

section \<open>Properties\<close>

definition in_range :: "float64 \<Rightarrow> float64 \<Rightarrow> float64 \<Rightarrow> bool" where
  "in_range lo hi x = (fle lo x \<and> fle x hi)"

definition integral_ok :: "'t PID \<Rightarrow> bool" where
  "integral_ok p = (fle (integralMin p) (integralMax p) \<and>
     (integral p = NaN \<or> in_range (integralMin p) (integralMax p) (integral p)))"


text \<open>Controllers and a clock for the concrete instances below.\<close>

definition clock0 :: "nat \<Rightarrow> nat \<Rightarrow> float64" where
  "clock0 t1 t2 = Fin 0"

definition pid0 :: "nat PID" where
  "pid0 = NewPID (Fin 1) (Fin 0) (Fin 0) (Fin 0) 0"



definition pid_scenario :: "nat PID" where
  "pid_scenario =
     SetSetPoint (snd (SetOutputLimits (NewPID (Fin 1) (Fin 0) (Fin 0) (Fin 0) 0)
       (Fin 2) (Fin 10))) (Fin 100)"

subsection \<open>The order of float64\<close>

lemma fle_total: "x \<noteq> NaN \<Longrightarrow> y \<noteq> NaN \<Longrightarrow> \<not> flt y x \<Longrightarrow> fle x y"
  by (auto simp: flt_def fle_def)

lemma fle_refl: "x \<noteq> NaN \<Longrightarrow> fle x x"
  by (simp add: fle_def)

lemma fle_not_fgt: "fle x y \<Longrightarrow> \<not> fgt x y"
  by (auto simp: fle_def fgt_def flt_def)



subsection \<open>Clamping\<close>

lemma clamp_in_range:
  assumes lim: "fle lo hi" and x: "x \<noteq> NaN"
  shows "in_range lo hi (if fgt x hi then hi else if flt x lo then lo else x)"
proof -
  from lim have nn: "lo \<noteq> NaN" "hi \<noteq> NaN" by (simp_all add: fle_def)
  show ?thesis
  proof (cases "fgt x hi")
    case True
    then show ?thesis using lim nn by (simp add: in_range_def fle_refl)
  next
    case hi: False
    show ?thesis
    proof (cases "flt x lo")
      case True
      then show ?thesis using hi lim nn by (simp add: in_range_def fle_refl)
    next
      case False
      then show ?thesis using hi x nn by (simp add: in_range_def fle_total fgt_def)
    qed
  qed
qed

lemma clamp_output_nan_or_in_range:
  assumes "fle (outputMin p) (outputMax p)"
  shows "clamp_output p x = NaN \<or> in_range (outputMin p) (outputMax p) (clamp_output p x)"
proof (cases "x = NaN")
  case True
  then show ?thesis by (simp add: clamp_output_def fgt_def flt_def)
next
  case False
  from clamp_in_range [OF assms False] show ?thesis by (simp add: clamp_output_def)
qed

lemma clamp_integral_fields [simp]:
  "integralMin (clamp_integral p) = integralMin p"
  "integralMax (clamp_integral p) = integralMax p"
  "outputMin (clamp_integral p) = outputMin p"
  "outputMax (clamp_integral p) = outputMax p"
  "kp (clamp_integral p) = kp p"
  "ki (clamp_integral p) = ki p"
  "kd (clamp_integral p) = kd p"
  "setPoint (clamp_integral p) = setPoint p"
  "prevValue (clamp_integral p) = prevValue p"
  "prevError (clamp_integral p) = prevError p"
  "lastUpdate (clamp_integral p) = lastUpdate p"
  "deadBand (clamp_integral p) = deadBand p"
  by (simp_all add: clamp_integral_def)

lemma clamp_integral_value:
  "integral (clamp_integral p) =
     (if fgt (integral p) (integralMax p) then integralMax p
      else if flt (integral p) (integralMin p) then integralMin p
      else integral p)"
  by (simp add: clamp_integral_def)

lemma clamp_integral_nan_or_in_range:
  assumes "fle (integralMin p) (integralMax p)"
  shows "integral (clamp_integral p) = NaN \<or>
         in_range (integralMin p) (integralMax p) (integral (clamp_integral p))"
proof (cases "integral p = NaN")
  case True
  then show ?thesis by (simp add: clamp_integral_value fgt_def flt_def)
next
  case False
  from clamp_in_range [OF assms False] show ?thesis
    by (simp add: clamp_integral_value)
qed

subsection \<open>What an update step changes\<close>

lemma updateInternal_fields [simp]:
  "outputMin (snd (updateInternal p v dt)) = outputMin p"
  "outputMax (snd (updateInternal p v dt)) = outputMax p"
  "integralMin (snd (updateInternal p v dt)) = integralMin p"
  "integralMax (snd (updateInternal p v dt)) = integralMax p"
  "kp (snd (updateInternal p v dt)) = kp p"
  "ki (snd (updateInternal p v dt)) = ki p"
  "kd (snd (updateInternal p v dt)) = kd p"
  "setPoint (snd (updateInternal p v dt)) = setPoint p"
  "deadBand (snd (updateInternal p v dt)) = deadBand p"
  "lastUpdate (snd (updateInternal p v dt)) = lastUpdate p"
  by (simp_all add: updateInternal_def accumulate_def Let_def)

lemma updateInternal_output:
  "fst (updateInternal p v dt) =
     clamp_output p (raw_output ((accumulate p (error_term p v) dt)\<lparr>prevValue := v\<rparr>)
        (error_term p v) (derivative_term p v dt))"
  by (simp add: updateInternal_def Let_def clamp_output_def accumulate_def derivative_term_def)

lemma updateInternal_integral:
  "integral (snd (updateInternal p v dt)) = integral (accumulate p (error_term p v) dt)"
  by (simp add: updateInternal_def Let_def)

lemma updateInternal_prevValue: "prevValue (snd (updateInternal p v dt)) = v"
  by (simp add: updateInternal_def Let_def)

lemma updateInternal_prevError: "prevError (snd (updateInternal p v dt)) = error_term p v"
  by (simp add: updateInternal_def Let_def)

lemma updateInternal_nan_or_in_range:
  "fle (outputMin p) (outputMax p) \<Longrightarrow>
   fst (updateInternal p v dt) = NaN \<or>
   in_range (outputMin p) (outputMax p) (fst (updateInternal p v dt))"
  unfolding updateInternal_output by (rule clamp_output_nan_or_in_range)

subsection \<open>Invariants of a run\<close>

lemma step_output_limits:
  "no_nan_output_limits c \<Longrightarrow> fle (outputMin p) (outputMax p) \<Longrightarrow>
   fle (outputMin (step sec p c)) (outputMax (step sec p c))"
  by (cases c)
     (auto simp: SetOutputLimits_def SetIntegralLimits_def SetSetPoint_def SetPID_def
        Update_def UpdateDuration_def Let_def fgt_def fle_total)

lemma run_output_limits:
  "list_all no_nan_output_limits cs \<Longrightarrow> fle (outputMin p) (outputMax p) \<Longrightarrow>
   fle (outputMin (run sec p cs)) (outputMax (run sec p cs))"
  by (induction cs arbitrary: p) (simp_all add: step_output_limits)

lemma NewPID_output_limits: "fle (outputMin (NewPID a b c d t)) (outputMax (NewPID a b c d t))"
  by (simp add: NewPID_def fle_def)

lemma accumulate_ok: "integral_ok p \<Longrightarrow> integral_ok (accumulate p e dt)"
  using clamp_integral_nan_or_in_range [of "p\<lparr>integral := fadd (integral p) (fmul e dt)\<rparr>"]
  by (simp add: integral_ok_def accumulate_def)

lemma updateInternal_ok: "integral_ok p \<Longrightarrow> integral_ok (snd (updateInternal p v dt))"
  using accumulate_ok [of p "error_term p v" dt]
  by (simp add: integral_ok_def updateInternal_integral accumulate_def)

lemma SetIntegralLimits_ok:
  "mn \<noteq> NaN \<Longrightarrow> mx \<noteq> NaN \<Longrightarrow> integral_ok p \<Longrightarrow>
   integral_ok (snd (SetIntegralLimits p mn mx))"
  using clamp_integral_nan_or_in_range [of "p\<lparr>integralMin := mn, integralMax := mx\<rparr>"]
  by (auto simp: integral_ok_def SetIntegralLimits_def fgt_def fle_total)

lemma step_ok:
  assumes c: "no_nan_integral_limits c" and p: "integral_ok p"
  shows "integral_ok (step sec p c)"
proof (cases c)
  case (CallSetIntegralLimits mn mx)
  then show ?thesis using c p by (simp add: SetIntegralLimits_ok)
next
  case (CallUpdate now v)
  from p have "integral_ok (p\<lparr>lastUpdate := now\<rparr>)" by (simp add: integral_ok_def)
  then show ?thesis using CallUpdate by (simp add: Update_def Let_def updateInternal_ok)
next
  case (CallUpdateDuration v dt)
  then show ?thesis using p by (simp add: UpdateDuration_def updateInternal_ok)
qed (use p in \<open>auto simp: integral_ok_def SetOutputLimits_def SetSetPoint_def SetPID_def\<close>)

lemma run_ok:
  "list_all no_nan_integral_limits cs \<Longrightarrow> integral_ok p \<Longrightarrow> integral_ok (run sec p cs)"
  by (induction cs arbitrary: p) (simp_all add: step_ok)

lemma NewPID_ok: "integral_ok (NewPID a b c d t)"
  by (simp add: integral_ok_def NewPID_def fle_def in_range_def)

subsection \<open>Rounding at the numbers of the examples\<close>

lemma rnd_0: "rnd 0 = Fin 0"
  by code_simp

lemma rnd_100: "rnd 100 = Fin 100"
  by code_simp

section \<open>The output limits\<close>

text \<open>
  Claim C1, as amended.  The claim is that every output of an update lies
  between \<open>outputMin\<close> and \<open>outputMax\<close>, for arbitrary float64 arguments.
  The clamp of \<^verbatim>\<open>updateInternal\<close> compares with \<^verbatim>\<open>></\<close> and \<^verbatim>\<open><\<close>, which are
  false on NaN, so a NaN output passes through it, and \<^verbatim>\<open>SetOutputLimits\<close>
  accepts NaN bounds for the same reason.  What holds: in every controller
  reached from \<open>NewPID\<close> by calls whose output limits are not NaN, the output
  of \<^verbatim>\<open>UpdateDuration\<close> and of \<^verbatim>\<open>Update\<close> is NaN or lies within the limits
  in effect.
\<close>

theorem update_output_nan_or_within_limits:
  assumes "list_all no_nan_output_limits cs"
  shows "let p = run sec (NewPID a b c d t0) cs in
     (fst (UpdateDuration p v dt) = NaN \<or>
        in_range (outputMin p) (outputMax p) (fst (UpdateDuration p v dt))) \<and>
     (fst (Update sec p now v) = NaN \<or>
        in_range (outputMin p) (outputMax p) (fst (Update sec p now v)))"
proof -
  define p where "p = run sec (NewPID a b c d t0) cs"
  have lim: "fle (outputMin p) (outputMax p)"
    unfolding p_def using assms NewPID_output_limits by (rule run_output_limits)
  have d: "fst (UpdateDuration p v dt) = NaN \<or>
        in_range (outputMin p) (outputMax p) (fst (UpdateDuration p v dt))"
    unfolding UpdateDuration_def using lim by (rule updateInternal_nan_or_in_range)
  from lim have "fle (outputMin (p\<lparr>lastUpdate := now\<rparr>)) (outputMax (p\<lparr>lastUpdate := now\<rparr>))"
    by simp
  from updateInternal_nan_or_in_range [OF this]
  have u: "fst (Update sec p now v) = NaN \<or>
        in_range (outputMin p) (outputMax p) (fst (Update sec p now v))"
    by (simp add: Update_def Let_def)
  from d u show ?thesis unfolding p_def [symmetric] Let_def by simp
qed

theorem update_output_nan_or_within_limits_witness:
  "list_all no_nan_output_limits
     [CallSetOutputLimits (Fin 2) (Fin 10), CallSetSetPoint (Fin 100),
      CallUpdate (7::nat) (Fin 0)] \<and>
   (let p = run clock0 (NewPID (Fin 1) (Fin 0) (Fin 0) (Fin 0) 0)
        [CallSetOutputLimits (Fin 2) (Fin 10), CallSetSetPoint (Fin 100), CallUpdate 7 (Fin 0)] in
     (fst (UpdateDuration p (Fin 0) (Fin 1)) = NaN \<or>
        in_range (outputMin p) (outputMax p) (fst (UpdateDuration p (Fin 0) (Fin 1)))) \<and>
     (fst (Update clock0 p 9 (Fin 0)) = NaN \<or>
        in_range (outputMin p) (outputMax p) (fst (Update clock0 p 9 (Fin 0)))))"
proof -
  have h: "list_all no_nan_output_limits
     [CallSetOutputLimits (Fin 2) (Fin 10), CallSetSetPoint (Fin 100), CallUpdate (7::nat) (Fin 0)]"
    by simp
  show ?thesis
    by (rule conjI [OF h update_output_nan_or_within_limits [OF h]])
qed

text \<open>
  The claim as stated fails twice: a fresh controller with gains \<open>(1, 0, 0)\<close>
  returns NaN for the measured value NaN, and after \<^verbatim>\<open>SetOutputLimits(NaN, NaN)\<close>,
  which returns no error, the output of an update at \<open>0\<close> is not within the
  limits.
\<close>

theorem output_limits_counterexample:
  "\<not> in_range (outputMin pid0) (outputMax pid0) (fst (UpdateDuration pid0 NaN (Fin 1))) \<and>
   \<not> in_range (outputMin (run clock0 pid0 [CallSetOutputLimits NaN NaN]))
        (outputMax (run clock0 pid0 [CallSetOutputLimits NaN NaN]))
        (fst (UpdateDuration (run clock0 pid0 [CallSetOutputLimits NaN NaN]) (Fin 0) (Fin 1)))"
proof -
  have "fst (UpdateDuration pid0 NaN (Fin 1)) = NaN" by code_simp
  moreover have "outputMin (run clock0 pid0 [CallSetOutputLimits NaN NaN]) = NaN"
    by (simp add: SetOutputLimits_def fgt_def flt_def)
  ultimately show ?thesis by (simp add: in_range_def fle_def)
qed

section \<open>The integral limits\<close>

text \<open>
  Claim C2, as amended.  The claim is that the accumulator lies between
  \<open>integralMin\<close> and \<open>integralMax\<close> after every update and after every
  successful \<^verbatim>\<open>SetIntegralLimits\<close>.  Both clamps compare with \<^verbatim>\<open>></\<close> and
  \<^verbatim>\<open><\<close>, so a NaN accumulator and NaN limits pass through them.  What
  holds: in every controller reached from \<open>NewPID\<close> by calls whose integral
  limits are not NaN, so after each call of such a sequence, the accumulator
  is NaN or lies within the limits.
\<close>

theorem integral_nan_or_within_limits:
  assumes "list_all no_nan_integral_limits cs"
  shows "let p = run sec (NewPID a b c d t0) cs in
     integral p = NaN \<or> in_range (integralMin p) (integralMax p) (integral p)"
proof -
  from assms NewPID_ok have "integral_ok (run sec (NewPID a b c d t0) cs)"
    by (rule run_ok)
  then show ?thesis by (simp add: integral_ok_def Let_def)
qed

theorem integral_nan_or_within_limits_witness:
  "list_all no_nan_integral_limits
     [CallSetSetPoint (Fin 100), CallUpdateDuration (Fin 0) (Fin 1),
      CallSetIntegralLimits (Fin 0) (Fin 5) :: nat call] \<and>
   (let p = run clock0 pid0
        [CallSetSetPoint (Fin 100), CallUpdateDuration (Fin 0) (Fin 1),
         CallSetIntegralLimits (Fin 0) (Fin 5)] in
     integral p = NaN \<or> in_range (integralMin p) (integralMax p) (integral p))"
proof -
  have h: "list_all no_nan_integral_limits
     [CallSetSetPoint (Fin 100), CallUpdateDuration (Fin 0) (Fin 1),
      CallSetIntegralLimits (Fin 0) (Fin (5::rat)) :: nat call]"
    by simp
  show ?thesis unfolding pid0_def
    by (rule conjI [OF h integral_nan_or_within_limits [OF h]])
qed

text \<open>
  The run of the witness shrinks the limits below the accumulated value: the
  update accumulates \<open>100\<close>, and \<^verbatim>\<open>SetIntegralLimits(0, 5)\<close> brings it to \<open>5\<close>.
\<close>

lemma integral_limits_shrink_example:
  "integral (run clock0 pid0 [CallSetSetPoint (Fin 100), CallUpdateDuration (Fin 0) (Fin 1)])
     = Fin 100 \<and>
   integral (run clock0 pid0 [CallSetSetPoint (Fin 100), CallUpdateDuration (Fin 0) (Fin 1),
      CallSetIntegralLimits (Fin 0) (Fin 5)]) = Fin 5"
proof -
  define p1 where "p1 = SetSetPoint pid0 (Fin 100)"
  have e: "error_term p1 (Fin 0) = Fin 100"
    by (simp add: p1_def pid0_def error_term_def NewPID_def SetSetPoint_def fsub_def fadd_def
        flt_def rnd_100)
  have a: "integral (accumulate p1 (Fin 100) (Fin 1)) = Fin 100"
    by (simp add: p1_def pid0_def accumulate_def clamp_integral_value NewPID_def SetSetPoint_def
        fmul_def fadd_def fgt_def flt_def rnd_100)
  have i: "integral (snd (UpdateDuration p1 (Fin 0) (Fin 1))) = Fin 100"
    by (simp add: UpdateDuration_def updateInternal_integral e a)
  show ?thesis
    by (simp add: p1_def [symmetric] i SetIntegralLimits_def clamp_integral_value fgt_def flt_def)
qed

text \<open>
  The claim as stated fails twice: an update with the measured value NaN
  leaves the accumulator NaN, and \<^verbatim>\<open>SetIntegralLimits(NaN, NaN)\<close> returns no
  error and leaves limits that contain no number.
\<close>

theorem integral_limits_counterexample:
  "\<not> in_range (integralMin (run clock0 pid0 [CallUpdateDuration NaN (Fin 1)]))
        (integralMax (run clock0 pid0 [CallUpdateDuration NaN (Fin 1)]))
        (integral (run clock0 pid0 [CallUpdateDuration NaN (Fin 1)])) \<and>
   \<not> in_range (integralMin (run clock0 pid0 [CallSetIntegralLimits NaN NaN]))
        (integralMax (run clock0 pid0 [CallSetIntegralLimits NaN NaN]))
        (integral (run clock0 pid0 [CallSetIntegralLimits NaN NaN]))"
proof -
  have "integral (run clock0 pid0 [CallUpdateDuration NaN (Fin 1)]) = NaN" by code_simp
  moreover have "integralMin (run clock0 pid0 [CallSetIntegralLimits NaN NaN]) = NaN"
    by (simp add: SetIntegralLimits_def fgt_def flt_def)
  ultimately show ?thesis by (simp add: in_range_def fle_def)
qed

section \<open>Errors of the limit setters\<close>



section \<open>The dead band\<close>








section \<open>The derivative term\<close>

lemma rnd_3: "rnd 3 = Fin 3"
  by code_simp

lemma rnd_minus_3_halves: "rnd (- (3 / 2)) = Fin (- (3 / 2))"
  by code_simp

text \<open>
  Claim C5.  The derivative term of an update step is
  \<^verbatim>\<open>-(value - prevValue) / dt\<close> when \<^verbatim>\<open>dt > 0\<close> and \<open>0\<close> when \<^verbatim>\<open>dt <= 0\<close>;
  it is the term that enters the output; the step stores the measured value
  as \<open>prevValue\<close>, which is \<open>0\<close> in a new controller.
\<close>

theorem derivative_on_measurement:
  "(fgt dt (Fin 0) \<longrightarrow> derivative_term p v dt = fdiv (fneg (fsub v (prevValue p))) dt) \<and>
   (fle dt (Fin 0) \<longrightarrow> derivative_term p v dt = Fin 0) \<and>
   fst (updateInternal p v dt) =
     clamp_output p (raw_output ((accumulate p (error_term p v) dt)\<lparr>prevValue := v\<rparr>)
        (error_term p v) (derivative_term p v dt)) \<and>
   prevValue (snd (updateInternal p v dt)) = v \<and>
   prevValue (NewPID a b c d t0) = Fin 0"
  using fle_not_fgt [of dt "Fin 0"]
  by (auto simp: derivative_term_def updateInternal_output updateInternal_prevValue NewPID_def)

theorem derivative_on_measurement_witness:
  "fgt (Fin 2) (Fin 0) \<and>
   derivative_term pid0 (Fin 3) (Fin 2) = fdiv (fneg (fsub (Fin 3) (prevValue pid0))) (Fin 2) \<and>
   derivative_term pid0 (Fin 3) (Fin 2) = Fin (- 3 / 2) \<and>
   fle (Fin (- 1)) (Fin 0) \<and>
   derivative_term pid0 (Fin 3) (Fin (- 1)) = Fin 0 \<and>
   prevValue (snd (updateInternal pid0 (Fin 3) (Fin 2))) = Fin 3"
proof -
  have g: "fgt (Fin 2) (Fin 0)" by (simp add: fgt_def flt_def)
  have l: "fle (Fin (- 1)) (Fin 0)" by (simp add: fle_def)
  have s: "fsub (Fin 3) (prevValue pid0) = Fin 3"
    by (simp add: pid0_def NewPID_def fsub_def fadd_def rnd_3)
  have q: "fdiv (fneg (fsub (Fin 3) (prevValue pid0))) (Fin 2) = Fin (- 3 / 2)"
    unfolding s by (simp add: fdiv_def rnd_minus_3_halves)
  from derivative_on_measurement
         [where dt = "Fin 2" and p = pid0 and v = "Fin 3" and a = "Fin 0" and b = "Fin 0"
            and c = "Fin 0" and d = "Fin 0" and ?t0.0 = "0::nat"]
       derivative_on_measurement
         [where dt = "Fin (- 1)" and p = pid0 and v = "Fin 3" and a = "Fin 0" and b = "Fin 0"
            and c = "Fin 0" and d = "Fin 0" and ?t0.0 = "0::nat"] g l q
  show ?thesis by simp
qed

text \<open>
  Claim C6.  The derivative term does not depend on the set point: it is the
  same in two controllers that differ in \<open>setPoint\<close> alone, and after an
  update at \<open>v\<close> a change of the set point leaves the derivative term of the
  next update at \<open>v\<close> what the measurements make it.
\<close>

theorem derivative_ignores_setPoint:
  "derivative_term (p\<lparr>setPoint := s\<rparr>) v dt = derivative_term p v dt \<and>
   derivative_term (SetSetPoint p s) v dt = derivative_term p v dt \<and>
   derivative_term (SetSetPoint (snd (UpdateDuration p v dt0)) s) v dt =
     (if fgt dt (Fin 0) then fdiv (fneg (fsub v v)) dt else Fin 0)"
  by (simp add: derivative_term_def SetSetPoint_def UpdateDuration_def updateInternal_prevValue)

section \<open>What UpdateDuration reads and writes\<close>

lemma accumulate_state: "accumulate p e dt = p\<lparr>integral := integral (accumulate p e dt)\<rparr>"
  by (simp add: accumulate_def clamp_integral_def)

lemma updateInternal_state:
  "snd (updateInternal p v dt) =
     p\<lparr>integral := integral (accumulate p (error_term p v) dt), prevValue := v,
       prevError := error_term p v\<rparr>"
proof -
  have "snd (updateInternal p v dt) =
      (accumulate p (error_term p v) dt)\<lparr>prevValue := v, prevError := error_term p v\<rparr>"
    by (simp add: updateInternal_def Let_def)
  also have "\<dots> = (p\<lparr>integral := integral (accumulate p (error_term p v) dt)\<rparr>)
      \<lparr>prevValue := v, prevError := error_term p v\<rparr>"
    using accumulate_state [of p "error_term p v" dt] by simp
  finally show ?thesis by simp
qed

lemma error_term_lastUpdate [simp]: "error_term (p\<lparr>lastUpdate := t\<rparr>) v = error_term p v"
  by (simp add: error_term_def)

lemma derivative_term_lastUpdate [simp]:
  "derivative_term (p\<lparr>lastUpdate := t\<rparr>) v dt = derivative_term p v dt"
  by (simp add: derivative_term_def)

lemma accumulate_lastUpdate [simp]:
  "accumulate (p\<lparr>lastUpdate := t\<rparr>) e dt = (accumulate p e dt)\<lparr>lastUpdate := t\<rparr>"
  by (simp add: accumulate_def clamp_integral_def)

lemma raw_output_lastUpdate [simp]:
  "raw_output (p\<lparr>lastUpdate := t\<rparr>) e d = raw_output p e d"
  by (simp add: raw_output_def)

lemma clamp_output_lastUpdate [simp]:
  "clamp_output (p\<lparr>lastUpdate := t\<rparr>) x = clamp_output p x"
  by (simp add: clamp_output_def)

lemma updateInternal_lastUpdate:
  "updateInternal (p\<lparr>lastUpdate := t\<rparr>) v dt =
     (fst (updateInternal p v dt), (snd (updateInternal p v dt))\<lparr>lastUpdate := t\<rparr>)"
  by (simp add: updateInternal_def Let_def clamp_output_def raw_output_def derivative_term_def)

text \<open>
  Claim C8.  \<^verbatim>\<open>UpdateDuration\<close> leaves \<open>lastUpdate\<close>, the gains, the set
  point, the dead band and the four limits as they are: the controller after
  the call is the one before with \<open>integral\<close>, \<open>prevValue\<close> and \<open>prevError\<close>
  replaced.  \<^verbatim>\<open>Update\<close> returns the same output as \<^verbatim>\<open>UpdateDuration\<close> with
  the elapsed time for \<open>dt\<close>, and the same controller but for \<open>lastUpdate\<close>.
\<close>

theorem UpdateDuration_frame:
  "lastUpdate (snd (UpdateDuration p v dt)) = lastUpdate p \<and>
   snd (UpdateDuration p v dt) =
     p\<lparr>integral := integral (snd (UpdateDuration p v dt)),
       prevValue := prevValue (snd (UpdateDuration p v dt)),
       prevError := prevError (snd (UpdateDuration p v dt))\<rparr> \<and>
   kp (snd (UpdateDuration p v dt)) = kp p \<and>
   ki (snd (UpdateDuration p v dt)) = ki p \<and>
   kd (snd (UpdateDuration p v dt)) = kd p \<and>
   setPoint (snd (UpdateDuration p v dt)) = setPoint p \<and>
   deadBand (snd (UpdateDuration p v dt)) = deadBand p \<and>
   outputMin (snd (UpdateDuration p v dt)) = outputMin p \<and>
   outputMax (snd (UpdateDuration p v dt)) = outputMax p \<and>
   integralMin (snd (UpdateDuration p v dt)) = integralMin p \<and>
   integralMax (snd (UpdateDuration p v dt)) = integralMax p \<and>
   UpdateDuration p v dt = updateInternal p v dt \<and>
   Update sec p now v = updateInternal (p\<lparr>lastUpdate := now\<rparr>) v (sec now (lastUpdate p)) \<and>
   fst (Update sec p now v) = fst (UpdateDuration p v (sec now (lastUpdate p))) \<and>
   snd (Update sec p now v) =
     (snd (UpdateDuration p v (sec now (lastUpdate p))))\<lparr>lastUpdate := now\<rparr>"
proof -
  have s: "snd (updateInternal p v dt) =
     p\<lparr>integral := integral (snd (updateInternal p v dt)),
       prevValue := prevValue (snd (updateInternal p v dt)),
       prevError := prevError (snd (updateInternal p v dt))\<rparr>"
    using updateInternal_state [of p v dt]
    by (simp add: updateInternal_integral updateInternal_prevValue updateInternal_prevError)
  have u: "Update sec p now v = updateInternal (p\<lparr>lastUpdate := now\<rparr>) v (sec now (lastUpdate p))"
    by (simp add: Update_def Let_def)
  show ?thesis
    unfolding u UpdateDuration_def updateInternal_lastUpdate using s by simp
qed




section \<open>The dead band is strict\<close>






section \<open>The scenario of the proportional controller\<close>

lemma rnd_10: "rnd 10 = Fin 10"
  by code_simp

lemma lit_tenth: "lit (1 / 10) = Fin (3602879701896397 / 36028797018963968)"
  by code_simp

lemma fmul_100_tenth: "fmul (Fin 100) (Fin (3602879701896397 / 36028797018963968)) = Fin 10"
  by code_simp

lemma accumulate_fields [simp]:
  "kp (accumulate p e dt) = kp p"
  "ki (accumulate p e dt) = ki p"
  "kd (accumulate p e dt) = kd p"
  "outputMin (accumulate p e dt) = outputMin p"
  "outputMax (accumulate p e dt) = outputMax p"
  "prevValue (accumulate p e dt) = prevValue p"
  by (simp_all add: accumulate_def)

text \<open>
  Claim C7.  A controller made by \<^verbatim>\<open>NewPID(1, 0, 0, 0)\<close>, after
  \<^verbatim>\<open>SetOutputLimits(2, 10)\<close>, which succeeds, and \<^verbatim>\<open>SetSetPoint(100)\<close>:
  the call \<^verbatim>\<open>UpdateDuration(0, 0.1)\<close> has the error \<open>100\<close>, the
  proportional term \<open>1 * 100 = 100\<close> and the unclamped output \<open>100\<close>, and
  returns \<open>10\<close>.
\<close>

theorem proportional_scenario_returns_10:
  "fst (SetOutputLimits (NewPID (Fin 1) (Fin 0) (Fin 0) (Fin 0) (0::nat)) (Fin 2) (Fin 10)) = None \<and>
   error_term pid_scenario (Fin 0) = Fin 100 \<and>
   fmul (kp pid_scenario) (error_term pid_scenario (Fin 0)) = Fin 100 \<and>
   raw_output ((accumulate pid_scenario (error_term pid_scenario (Fin 0)) (lit (1 / 10)))
       \<lparr>prevValue := Fin 0\<rparr>)
     (error_term pid_scenario (Fin 0))
     (derivative_term pid_scenario (Fin 0) (lit (1 / 10))) = Fin 100 \<and>
   fst (UpdateDuration pid_scenario (Fin 0) (lit (1 / 10))) = Fin 10"
proof -
  have ok: "fst (SetOutputLimits (NewPID (Fin 1) (Fin 0) (Fin 0) (Fin 0) (0::nat))
      (Fin 2) (Fin 10)) = None"
    by (simp add: SetOutputLimits_def fgt_def flt_def)
  have f: "kp pid_scenario = Fin 1" "ki pid_scenario = Fin 0" "kd pid_scenario = Fin 0"
    "setPoint pid_scenario = Fin 100" "deadBand pid_scenario = Fin 0"
    "prevValue pid_scenario = Fin 0" "integral pid_scenario = Fin 0"
    "outputMin pid_scenario = Fin 2" "outputMax pid_scenario = Fin 10"
    "integralMin pid_scenario = Fin (- 100)" "integralMax pid_scenario = Fin 100"
    by (simp_all add: pid_scenario_def SetSetPoint_def SetOutputLimits_def NewPID_def
        fgt_def flt_def)
  have e: "error_term pid_scenario (Fin 0) = Fin 100"
    by (simp add: error_term_def f fsub_def fadd_def flt_def rnd_100)
  have a: "integral (accumulate pid_scenario (Fin 100) (lit (1 / 10))) = Fin 10"
    unfolding lit_tenth
    by (simp add: accumulate_def clamp_integral_value f fmul_100_tenth fadd_def rnd_10
        fgt_def flt_def)
  have d: "derivative_term pid_scenario (Fin 0) (lit (1 / 10)) = NZero"
    unfolding lit_tenth
    by (simp add: fgt_def flt_def derivative_term_def f fsub_def fadd_def rnd_0 fdiv_def
        signed_zero_def)
  have m: "fmul (Fin 1) (Fin 100) = Fin 100" "fmul (Fin 0) (Fin 10) = Fin 0"
    "fmul (Fin 0) NZero = NZero"
    by (simp_all add: fmul_def signed_zero_def rnd_100)
  have s: "fadd (Fin 100) (Fin 0) = Fin 100" "fadd (Fin 100) NZero = Fin 100"
    by (simp_all add: fadd_def rnd_100)
  have r: "raw_output ((accumulate pid_scenario (Fin 100) (lit (1 / 10)))\<lparr>prevValue := Fin 0\<rparr>)
      (Fin 100) NZero = Fin 100"
    by (simp add: raw_output_def a f m s)
  have c: "clamp_output pid_scenario (Fin 100) = Fin 10"
    by (simp add: clamp_output_def f fgt_def flt_def)
  have u: "fst (UpdateDuration pid_scenario (Fin 0) (lit (1 / 10))) = Fin 10"
    by (simp add: UpdateDuration_def updateInternal_output e d r c)
  from ok r u show ?thesis by (simp add: e d f m)
qed

end
